theory Spec2Isabelle
  imports Complex_Main "HOL-Library.Word"
begin

section \<open>Python values and exceptions\<close>

text \<open>
  The module \<^verbatim>\<open>pyads/pyads_common.py\<close> is dynamically typed: its functions look at
  their arguments only through attribute access, iteration and comparison. The model
  keeps that view. A Python \<^verbatim>\<open>str\<close> is a list of Unicode code points, a \<^verbatim>\<open>bytes\<close>
  object a list of 8-bit words, and an exception is a value of \<open>py_error\<close> returned
  on the left of a sum; \<open>OtherError\<close> stands for the exception classes that are not
  listed, by name.
\<close>

type_synonym byte = "8 word"

type_synonym pystr = "nat list"

datatype py_error =
    AttributeError
  | TypeError
  | ValueError
  | KeyError
  | UnicodeDecodeError
  | OverflowError
  | MemoryError
  | OSError
  | TimeoutError
  | OtherError string

text \<open>
  What an attribute access or a method call on an object does: the object has no such
  attribute, or the access gives a value, or it raises (a ctypes \<^verbatim>\<open>c_wchar\<close> that
  holds an invalid code unit raises \<^verbatim>\<open>ValueError\<close> when its \<^verbatim>\<open>value\<close> is read).
\<close>

datatype 'a outcome =
    Missing
  | Gives 'a
  | Raises py_error

text \<open>
  What iterating an object does: the object is not iterable, or it yields its items and
  stops, or it raises after some items.
\<close>

datatype 'a iteration =
    NotIterable
  | Yields "'a list"
  | YieldsThenRaises "'a list" py_error

text \<open>
  \<open>Object i v its d\<close> is any object that is not one of the built-in values listed
  before it, described by what the module can observe of it: its identity \<open>i\<close>, what
  reading its attribute \<^verbatim>\<open>value\<close> does, what iterating it does, and what calling
  its method \<^verbatim>\<open>decode("utf-8")\<close> does. A ctypes scalar such as \<^verbatim>\<open>c_int32(7)\<close> is
  \<open>Object i (Gives (PyInt 7)) NotIterable Missing\<close>; a ctypes array of three integers is
  \<open>Object i Missing (Yields [PyInt 1, PyInt 2, PyInt 3]) Missing\<close>; a character array
  has both the items, one-byte \<^verbatim>\<open>bytes\<close> objects, and the attribute, the bytes of the
  array up to its first zero byte; a ctypes structure has none of the three. An
  operation does the same each time it is performed on an object, as the accessors of
  ctypes do.
\<close>

datatype pyval =
    PyNone
  | PyBool bool
  | PyInt int
  | PyBytes "byte list"
  | PyByteArray "byte list"
  | PyStr pystr
  | PyList "pyval list"
  | Object nat "pyval outcome" "pyval iteration" "pyval outcome"

text \<open>A string literal of the source, as code points.\<close>

definition ustr :: "string \<Rightarrow> pystr" where
  "ustr s = map of_char s"

text \<open>\<^verbatim>\<open>"{}".format(n)\<close> for an integer: its decimal digits, with a sign when negative.\<close>

definition digit :: "nat \<Rightarrow> nat" where
  "digit d = 48 + d"

function str_nat :: "nat \<Rightarrow> pystr" where
  "str_nat n = (if n < 10 then [digit n] else str_nat (n div 10) @ [digit (n mod 10)])"
  by pat_completeness auto
termination
  by (relation "measure (\<lambda>n. n)") auto

declare str_nat.simps [simp del]

definition str_int :: "int \<Rightarrow> pystr" where
  "str_int i = (if i < 0 then ustr ''-'' @ str_nat (nat (- i)) else str_nat (nat i))"

text \<open>\<^verbatim>\<open>d[k]\<close> on a dictionary raises \<^verbatim>\<open>KeyError\<close> for a missing key.\<close>

definition dict_getitem :: "('k \<rightharpoonup> 'v) \<Rightarrow> 'k \<Rightarrow> py_error + 'v" where
  "dict_getitem d k = (case d k of None \<Rightarrow> Inl KeyError | Some v \<Rightarrow> Inr v)"

text \<open>
  An instance is the dictionary of the attributes set on it. Reading an attribute that
  was never set raises \<^verbatim>\<open>AttributeError\<close> (the classes of this module define no
  class-level data attributes to fall back on).
\<close>

type_synonym py_instance = "string \<rightharpoonup> pyval"

definition getattr :: "py_instance \<Rightarrow> string \<Rightarrow> py_error + pyval" where
  "getattr self name = (case self name of None \<Rightarrow> Inl AttributeError | Some v \<Rightarrow> Inr v)"

text \<open>
  \<^verbatim>\<open>read_data.value\<close>. None of the built-in values has the attribute.
\<close>

fun getattr_value :: "pyval \<Rightarrow> py_error + pyval" where
  "getattr_value (Object i (Gives v) its d) = Inr v"
| "getattr_value (Object i (Raises e) its d) = Inl e"
| "getattr_value _ = Inl AttributeError"

text \<open>
  \<^verbatim>\<open>hasattr(read_data, "value")\<close> reads the attribute: it is false when the read
  raises \<^verbatim>\<open>AttributeError\<close>, and any other exception passes through it.
\<close>

definition hasattr_value :: "pyval \<Rightarrow> py_error + bool" where
  "hasattr_value x =
     (case getattr_value x of
        Inr v \<Rightarrow> Inr True
      | Inl e \<Rightarrow> if e = AttributeError then Inr False else Inl e)"

text \<open>
  \<^verbatim>\<open>[i for i in read_data]\<close>: the items of an iterable, \<^verbatim>\<open>TypeError\<close> for an object
  that is not iterable, and the exception of an iteration that raises on the way. A
  \<^verbatim>\<open>bytes\<close> or \<^verbatim>\<open>bytearray\<close> object yields integers, a \<^verbatim>\<open>str\<close> yields
  one-character strings.
\<close>

fun py_iter :: "pyval \<Rightarrow> py_error + pyval list" where
  "py_iter (PyBytes bs) = Inr (map (\<lambda>b. PyInt (uint b)) bs)"
| "py_iter (PyByteArray bs) = Inr (map (\<lambda>b. PyInt (uint b)) bs)"
| "py_iter (PyStr s) = Inr (map (\<lambda>c. PyStr [c]) s)"
| "py_iter (PyList xs) = Inr xs"
| "py_iter (Object i v (Yields xs) d) = Inr xs"
| "py_iter (Object i v (YieldsThenRaises xs e) d) = Inl e"
| "py_iter _ = Inl TypeError"

subsection \<open>UTF-8\<close>

text \<open>
  \<^verbatim>\<open>bytes.decode("utf-8")\<close> with the default error handler \<^verbatim>\<open>strict\<close>: the
  well-formed byte sequences of the Unicode standard are decoded to their code points
  and anything else raises. \<open>None\<close> stands for the rejected input.
\<close>

definition is_cont :: "byte \<Rightarrow> bool" where
  "is_cont b = (0x80 \<le> b \<and> b \<le> 0xBF)"

definition cont_bits :: "byte \<Rightarrow> nat" where
  "cont_bits b = unat b - 0x80"

definition second_ok :: "byte \<Rightarrow> byte \<Rightarrow> bool" where
  "second_ok b0 b1 =
     (if b0 = 0xE0 then 0xA0 \<le> b1 \<and> b1 \<le> 0xBF
      else if b0 = 0xED then 0x80 \<le> b1 \<and> b1 \<le> 0x9F
      else if b0 = 0xF0 then 0x90 \<le> b1 \<and> b1 \<le> 0xBF
      else if b0 = 0xF4 then 0x80 \<le> b1 \<and> b1 \<le> 0x8F
      else is_cont b1)"

fun utf8_decode :: "byte list \<Rightarrow> pystr option" where
  "utf8_decode [] = Some []"
| "utf8_decode (b0 # bs) =
     (if b0 < 0x80 then map_option (Cons (unat b0)) (utf8_decode bs)
      else if 0xC2 \<le> b0 \<and> b0 \<le> 0xDF then
        (case bs of
           b1 # r \<Rightarrow>
             if is_cont b1
             then map_option (Cons ((unat b0 - 0xC0) * 64 + cont_bits b1)) (utf8_decode r)
             else None
         | _ \<Rightarrow> None)
      else if 0xE0 \<le> b0 \<and> b0 \<le> 0xEF then
        (case bs of
           b1 # b2 # r \<Rightarrow>
             if second_ok b0 b1 \<and> is_cont b2
             then map_option
                    (Cons ((unat b0 - 0xE0) * 4096 + cont_bits b1 * 64 + cont_bits b2))
                    (utf8_decode r)
             else None
         | _ \<Rightarrow> None)
      else if 0xF0 \<le> b0 \<and> b0 \<le> 0xF4 then
        (case bs of
           b1 # b2 # b3 # r \<Rightarrow>
             if second_ok b0 b1 \<and> is_cont b2 \<and> is_cont b3
             then map_option
                    (Cons ((unat b0 - 0xF0) * 262144 + cont_bits b1 * 4096
                           + cont_bits b2 * 64 + cont_bits b3))
                    (utf8_decode r)
             else None
         | _ \<Rightarrow> None)
      else None)"

declare utf8_decode.simps(2) [simp del]

text \<open>
  The encoding form UTF-8 itself, \<^verbatim>\<open>str.encode("utf-8")\<close> on a text of Unicode
  scalar values (the code points up to \<open>0x10FFFF\<close> that are not surrogates): one to four
  bytes for each code point. It is what the decoder is measured against.
\<close>

definition is_scalar_value :: "nat \<Rightarrow> bool" where
  "is_scalar_value c = (c < 0xD800 \<or> (0xE000 \<le> c \<and> c < 0x110000))"

definition utf8_encode_char :: "nat \<Rightarrow> byte list" where
  "utf8_encode_char c =
     (if c < 0x80 then [of_nat c]
      else if c < 0x800 then [of_nat (0xC0 + c div 64), of_nat (0x80 + c mod 64)]
      else if c < 0x10000 then
        [of_nat (0xE0 + c div 4096), of_nat (0x80 + c div 64 mod 64), of_nat (0x80 + c mod 64)]
      else
        [of_nat (0xF0 + c div 262144), of_nat (0x80 + c div 4096 mod 64),
         of_nat (0x80 + c div 64 mod 64), of_nat (0x80 + c mod 64)])"

definition utf8_encode :: "pystr \<Rightarrow> byte list" where
  "utf8_encode s = concat (map utf8_encode_char s)"

text \<open>
  \<^verbatim>\<open>x.decode("utf-8")\<close>: \<^verbatim>\<open>bytes\<close> and \<^verbatim>\<open>bytearray\<close> have the method, the
  other built-in values do not, so that the attribute lookup raises, and another object
  does what its own method does.
\<close>

fun decode_utf8 :: "pyval \<Rightarrow> py_error + pyval" where
  "decode_utf8 (PyBytes bs) =
     (case utf8_decode bs of None \<Rightarrow> Inl UnicodeDecodeError | Some s \<Rightarrow> Inr (PyStr s))"
| "decode_utf8 (PyByteArray bs) =
     (case utf8_decode bs of None \<Rightarrow> Inl UnicodeDecodeError | Some s \<Rightarrow> Inr (PyStr s))"
| "decode_utf8 (Object i v its (Gives x)) = Inr x"
| "decode_utf8 (Object i v its (Raises e)) = Inl e"
| "decode_utf8 _ = Inl AttributeError"

section \<open>ADSError\<close>

text \<open>
  \<^verbatim>\<open>ADSError.__init__(self, err_code=None, text=None)\<close>. The table \<^verbatim>\<open>ERROR_CODES\<close>
  comes from \<^verbatim>\<open>pyads/errorcodes.py\<close> and is a parameter here. The result is the
  instance after the constructor has run. The source stores the message in
  \<^verbatim>\<open>self.msg\<close> and appends the text in place; here the message is built in \<open>msg\<close>
  and stored once. The lookup in the table can only raise \<^verbatim>\<open>KeyError\<close>, the
  exception that the source handles.
\<close>

definition ADSError_init :: "(int \<rightharpoonup> pystr) \<Rightarrow> int option \<Rightarrow> pystr option \<Rightarrow> py_instance" where
  "ADSError_init ERROR_CODES err_code text =
     (let (self, msg) =
            (case err_code of
               Some c \<Rightarrow>
                 (Map.empty(''err_code'' \<mapsto> PyInt c),
                  (case dict_getitem ERROR_CODES c of
                     Inr d \<Rightarrow> d @ ustr '' ('' @ str_int c @ ustr ''). ''
                   | Inl e \<Rightarrow> ustr ''Unknown Error ('' @ str_int c @ ustr ''). ''))
             | None \<Rightarrow> (Map.empty, ustr ''''));
          msg = (case text of Some t \<Rightarrow> msg @ t | None \<Rightarrow> msg)
      in self(''msg'' \<mapsto> PyStr msg))"

text \<open>\<^verbatim>\<open>ADSError.__str__\<close>.\<close>

definition ADSError_str :: "py_instance \<Rightarrow> py_error + pystr" where
  "ADSError_str self =
     (case getattr self ''msg'' of
        Inr (PyStr m) \<Rightarrow> Inr (ustr ''ADSError: '' @ m)
      | Inr _ \<Rightarrow> Inl TypeError
      | Inl e \<Rightarrow> Inl e)"

section \<open>Type descriptors and value decoding\<close>

text \<open>
  The \<^verbatim>\<open>PLCTYPE_*\<close> constants are ctypes classes: the simple types, arrays of a
  ctypes class with a fixed length, and structures. \<open>type_name\<close> is
  \<^verbatim>\<open>type(plc_type).__name__\<close>, the name of the metaclass, and \<open>elem_type\<close> is the
  attribute \<^verbatim>\<open>_type_\<close> of an array class.
\<close>

datatype ctype =
    c_bool
  | c_char
  | c_wchar
  | c_int8
  | c_uint8
  | c_int16
  | c_uint16
  | c_int32
  | c_uint32
  | c_int64
  | c_uint64
  | c_float
  | c_double
  | Array ctype nat
  | Structure string

fun type_name :: "ctype \<Rightarrow> string" where
  "type_name (Array e n) = ''PyCArrayType''"
| "type_name (Structure s) = ''PyCStructType''"
| "type_name _ = ''PyCSimpleType''"

fun elem_type :: "ctype \<Rightarrow> ctype option" where
  "elem_type (Array e n) = Some e"
| "elem_type _ = None"

text \<open>
  Modelled from the spec: \<^verbatim>\<open>pyads/constants.py\<close>, which defines
  \<^verbatim>\<open>PLCTYPE_STRING\<close>, is missing; the spec calls it the single-character string
  descriptor, which among the ctypes classes is \<^verbatim>\<open>c_char\<close>.
\<close>

definition PLCTYPE_STRING :: ctype where
  "PLCTYPE_STRING = c_char"

definition type_is_string :: "ctype \<Rightarrow> bool" where
  "type_is_string plc_type =
     (if plc_type = PLCTYPE_STRING then True
      else if type_name plc_type = ''PyCArrayType''
              \<and> elem_type plc_type = Some PLCTYPE_STRING then True
      else False)"

definition get_value_from_ctype_data :: "pyval \<Rightarrow> ctype \<Rightarrow> py_error + pyval" where
  "get_value_from_ctype_data read_data plc_type =
     (if read_data = PyNone then Inr PyNone
      else if type_is_string plc_type then
        (case getattr_value read_data of Inl e \<Rightarrow> Inl e | Inr v \<Rightarrow> decode_utf8 v)
      else if type_name plc_type = ''PyCArrayType'' then
        (case py_iter read_data of Inl e \<Rightarrow> Inl e | Inr xs \<Rightarrow> Inr (PyList xs))
      else
        (case hasattr_value read_data of
           Inl e \<Rightarrow> Inl e
         | Inr True \<Rightarrow> getattr_value read_data
         | Inr False \<Rightarrow> Inr read_data))"

text \<open>The scalar numeric descriptors among the ctypes classes.\<close>

fun is_scalar_numeric :: "ctype \<Rightarrow> bool" where
  "is_scalar_numeric (Array e n) = False"
| "is_scalar_numeric (Structure s) = False"
| "is_scalar_numeric c_char = False"
| "is_scalar_numeric c_wchar = False"
| "is_scalar_numeric _ = True"

section \<open>The datagram exchange\<close>

text \<open>
  \<^verbatim>\<open>send_raw_udp_message\<close> only calls the socket library, so the model is a model of
  those calls. The state \<open>world\<close> holds the sockets that are open (by descriptor, each
  with its bound address and its timeout, \<open>None\<close> being the blocking mode of a new
  socket), the calls made so far, and the seconds the caller has spent blocked. What
  the interpreter, the operating system and the network do during one call is the input
  \<open>env\<close>: an error for \<^verbatim>\<open>socket()\<close>, the port given by \<^verbatim>\<open>bind\<close> or its error,
  an error for \<^verbatim>\<open>sendto\<close>, the largest buffer size the interpreter can represent,
  the error, if any, of allocating a receive buffer of a given size, and what reaches
  the socket, a datagram with its sender or an error reported by the system, with the
  delay after which it does, if anything reaches it at all.
\<close>

type_synonym address = "string \<times> nat"

record socket_state =
  bound_to :: "address option"
  timeout :: "real option"

datatype event =
    EvSocket nat
  | EvBind nat address
  | EvSendTo nat "byte list" address
  | EvSetTimeout nat real
  | EvRecvFrom nat int
  | EvClose nat

record world =
  open_sockets :: "(nat \<times> socket_state) list"
  trace :: "event list"
  clock :: real

record env =
  socket_error :: "py_error option"
  bind_result :: "py_error + nat"
  sendto_error :: "py_error option"
  ssize_max :: int
  alloc_error :: "nat \<Rightarrow> py_error option"
  reply :: "(real \<times> (py_error + byte list \<times> address)) option"

text \<open>
  A statement either never returns (\<open>None\<close>), raises, or returns a value, and leaves a
  new state behind in the last two cases. \<open>io_bind\<close> is the sequencing of statements:
  an exception skips what follows.
\<close>

type_synonym 'a io = "world \<Rightarrow> ((py_error + 'a) \<times> world) option"

definition io_bind :: "'a io \<Rightarrow> ('a \<Rightarrow> 'b io) \<Rightarrow> 'b io" where
  "io_bind m f w =
     (case m w of
        None \<Rightarrow> None
      | Some (Inl e, w') \<Rightarrow> Some (Inl e, w')
      | Some (Inr x, w') \<Rightarrow> f x w')"

definition log_event :: "event \<Rightarrow> world \<Rightarrow> world" where
  "log_event ev w = w\<lparr>trace := trace w @ [ev]\<rparr>"

text \<open>A descriptor that no open socket has.\<close>

definition fresh_fd :: "world \<Rightarrow> nat" where
  "fresh_fd w = foldr (\<lambda>(fd, s) m. max (Suc fd) m) (open_sockets w) 0"

definition update_socket :: "nat \<Rightarrow> (socket_state \<Rightarrow> socket_state) \<Rightarrow> world \<Rightarrow> world" where
  "update_socket fd f w =
     w\<lparr>open_sockets := map (\<lambda>(k, s). if k = fd then (k, f s) else (k, s)) (open_sockets w)\<rparr>"

text \<open>\<^verbatim>\<open>socket.socket(socket.AF_INET, socket.SOCK_DGRAM)\<close>.\<close>

definition socket_socket :: "env \<Rightarrow> nat io" where
  "socket_socket env w =
     (case socket_error env of
        Some e \<Rightarrow> Some (Inl e, w)
      | None \<Rightarrow>
          (let fd = fresh_fd w
           in Some (Inr fd,
                    log_event (EvSocket fd)
                      (w\<lparr>open_sockets :=
                           (fd, \<lparr>bound_to = None, timeout = None\<rparr>) # open_sockets w\<rparr>))))"

text \<open>\<^verbatim>\<open>sock.bind(addr)\<close>; port 0 asks the system for an ephemeral port.\<close>

definition sock_bind :: "env \<Rightarrow> nat \<Rightarrow> address \<Rightarrow> unit io" where
  "sock_bind env fd addr w =
     (let w1 = log_event (EvBind fd addr) w
      in case map_of (open_sockets w) fd of
           None \<Rightarrow> Some (Inl OSError, w1)
         | Some s \<Rightarrow>
             (case bind_result env of
                Inl e \<Rightarrow> Some (Inl e, w1)
              | Inr port \<Rightarrow>
                  Some (Inr (),
                        update_socket fd
                          (\<lambda>s. s\<lparr>bound_to :=
                                   Some (fst addr, if snd addr = 0 then port else snd addr)\<rparr>)
                          w1)))"

text \<open>\<^verbatim>\<open>sock.sendto(data, addr)\<close> returns the number of bytes sent.\<close>

definition sock_sendto :: "env \<Rightarrow> nat \<Rightarrow> byte list \<Rightarrow> address \<Rightarrow> nat io" where
  "sock_sendto env fd data addr w =
     (let w1 = log_event (EvSendTo fd data addr) w
      in case map_of (open_sockets w) fd of
           None \<Rightarrow> Some (Inl OSError, w1)
         | Some s \<Rightarrow>
             (case sendto_error env of
                Some e \<Rightarrow> Some (Inl e, w1)
              | None \<Rightarrow> Some (Inr (length data), w1)))"

text \<open>\<^verbatim>\<open>sock.settimeout(t)\<close> with a number \<open>t\<close> of seconds.\<close>

definition sock_settimeout :: "nat \<Rightarrow> real \<Rightarrow> unit io" where
  "sock_settimeout fd t w =
     (let w1 = log_event (EvSetTimeout fd t) w
      in if t < 0 then Some (Inl ValueError, w1)
         else case map_of (open_sockets w) fd of
           None \<Rightarrow> Some (Inl OSError, w1)
         | Some s \<Rightarrow> Some (Inr (), update_socket fd (\<lambda>s. s\<lparr>timeout := Some t\<rparr>) w1))"

text \<open>
  \<^verbatim>\<open>sock.recvfrom(bufsize)\<close>. Before anything is received the size is converted to
  the machine integer of the interpreter, which raises \<^verbatim>\<open>OverflowError\<close> for a size
  outside its range, a negative size is refused with \<^verbatim>\<open>ValueError\<close>, and the buffer
  is allocated, which raises when the interpreter cannot allocate that much. Then the
  call waits for something to reach the socket: with a timeout \<open>t\<close> it returns the
  datagram, cut to \<open>bufsize\<close> bytes, or raises the reported error, when that arrives
  before \<open>t\<close> seconds have passed, and raises the timeout exception after \<open>t\<close> seconds
  when not; without a timeout it waits as long as it takes, for ever when nothing
  arrives.
\<close>

definition sock_recvfrom :: "env \<Rightarrow> nat \<Rightarrow> int \<Rightarrow> (byte list \<times> address) io" where
  "sock_recvfrom env fd bufsize w =
     (let w1 = log_event (EvRecvFrom fd bufsize) w
      in if bufsize < - ssize_max env - 1 \<or> ssize_max env < bufsize
         then Some (Inl OverflowError, w1)
         else if bufsize < 0 then Some (Inl ValueError, w1)
         else case alloc_error env (nat bufsize) of
           Some e \<Rightarrow> Some (Inl e, w1)
         | None \<Rightarrow>
             (case map_of (open_sockets w) fd of
                None \<Rightarrow> Some (Inl OSError, w1)
              | Some s \<Rightarrow>
                  (case reply env of
                     None \<Rightarrow>
                       (case timeout s of
                          None \<Rightarrow> None
                        | Some t \<Rightarrow> Some (Inl TimeoutError, w1\<lparr>clock := clock w1 + t\<rparr>))
                   | Some (d, arrival) \<Rightarrow>
                       (let arrived =
                              (case arrival of
                                 Inl e \<Rightarrow> Some (Inl e, w1\<lparr>clock := clock w1 + d\<rparr>)
                               | Inr (data, sender) \<Rightarrow>
                                   Some (Inr (take (nat bufsize) data, sender),
                                         w1\<lparr>clock := clock w1 + d\<rparr>))
                        in case timeout s of
                             None \<Rightarrow> arrived
                           | Some t \<Rightarrow>
                               if d < t then arrived
                               else Some (Inl TimeoutError, w1\<lparr>clock := clock w1 + t\<rparr>)))))"

text \<open>\<^verbatim>\<open>sock.close()\<close>.\<close>

definition sock_close :: "nat \<Rightarrow> world \<Rightarrow> world" where
  "sock_close fd w =
     log_event (EvClose fd) (w\<lparr>open_sockets := filter (\<lambda>(k, s). k \<noteq> fd) (open_sockets w)\<rparr>)"

text \<open>
  \<^verbatim>\<open>with closing(sock): body\<close>: when the body returns or raises, the socket is closed
  and the value or the exception of the body is passed on.
\<close>

definition closing :: "nat \<Rightarrow> 'a io \<Rightarrow> 'a io" where
  "closing sock body w =
     (case body w of
        None \<Rightarrow> None
      | Some (r, w') \<Rightarrow> Some (r, sock_close sock w'))"

text \<open>
  The constant \<^verbatim>\<open>PORT_REMOTE_UDP\<close> comes from \<^verbatim>\<open>pyads/constants.py\<close> and is a
  parameter here.
\<close>

definition send_raw_udp_message ::
  "nat \<Rightarrow> env \<Rightarrow> string \<Rightarrow> byte list \<Rightarrow> int \<Rightarrow> (byte list \<times> address) io" where
  "send_raw_udp_message PORT_REMOTE_UDP env ip_address message expected_return_length =
     io_bind (socket_socket env) (\<lambda>sock.
       closing sock
         (io_bind (sock_bind env sock ('''', 0)) (\<lambda>_.
          io_bind (sock_sendto env sock message (ip_address, PORT_REMOTE_UDP)) (\<lambda>_.
          io_bind (sock_settimeout sock 5) (\<lambda>_.
          sock_recvfrom env sock expected_return_length)))))"

section \<open>Sample inputs\<close>

text \<open>
  A small error table; an environment of a 64-bit interpreter in which every call
  succeeds, buffers of up to a mebibyte can be allocated and nothing reaches the socket;
  a state with one socket already open; and some buffers: the inputs of the examples
  below.
\<close>

definition sample_codes :: "int \<rightharpoonup> pystr" where
  "sample_codes = [1 \<mapsto> ustr ''Internal error'', 6 \<mapsto> ustr ''target port not found'']"

definition quiet :: env where
  "quiet = \<lparr>socket_error = None, bind_result = Inr 50000, sendto_error = None,
            ssize_max = 9223372036854775807,
            alloc_error = (\<lambda>k. if k \<le> 1048576 then None else Some MemoryError),
            reply = None\<rparr>"

definition idle :: world where
  "idle = \<lparr>open_sockets = [(3, \<lparr>bound_to = None, timeout = None\<rparr>)], trace = [], clock = 0\<rparr>"

definition char_buffer :: pyval where
  "char_buffer =
     Object 1 (Gives (PyBytes [0x61, 0x62, 0x63]))
       (Yields [PyBytes [0x61], PyBytes [0x62], PyBytes [0x63]]) Missing"

definition euro_buffer :: pyval where
  "euro_buffer =
     Object 2 (Gives (PyBytes [0xC3, 0xA9, 0xE2, 0x82, 0xAC, 0xF0, 0x9F, 0x98, 0x80]))
       (Yields [PyBytes [0xC3], PyBytes [0xA9], PyBytes [0xE2], PyBytes [0x82], PyBytes [0xAC],
                PyBytes [0xF0], PyBytes [0x9F], PyBytes [0x98], PyBytes [0x80]]) Missing"

definition int_buffer :: pyval where
  "int_buffer = Object 3 Missing (Yields [PyInt 1, PyInt 2, PyInt 3]) Missing"

definition broken_wchar :: pyval where
  "broken_wchar = Object 4 (Raises ValueError) NotIterable Missing"

definition broken_wchar_array :: pyval where
  "broken_wchar_array =
     Object 5 (Raises ValueError) (YieldsThenRaises [PyStr [97]] ValueError) Missing"

section \<open>UTF-8: the decoder inverts the encoder\<close>

lemma unat_byte: "n < 256 \<Longrightarrow> unat (of_nat n :: byte) = n"
  by (simp add: unat_of_nat)

lemma byte_of_unat: "(of_nat (unat b) :: byte) = b"
  by simp

lemma unat_byte_less: "unat (b :: byte) < 256"
  using unsigned_less [of b, where ?'a = nat] by simp

text \<open>The decoder on a leading byte given by its number.\<close>

lemma decode1:
  "x < 128 \<Longrightarrow> utf8_decode (of_nat x # r) = map_option (Cons x) (utf8_decode r)"
  by (simp add: utf8_decode.simps(2) word_less_nat_alt unat_byte)

lemma decode2:
  "194 \<le> x0 \<Longrightarrow> x0 \<le> 223 \<Longrightarrow> 128 \<le> x1 \<Longrightarrow> x1 \<le> 191 \<Longrightarrow>
   utf8_decode (of_nat x0 # of_nat x1 # r)
     = map_option (Cons ((x0 - 192) * 64 + (x1 - 128))) (utf8_decode r)"
  by (simp add: utf8_decode.simps(2) word_less_nat_alt word_le_nat_alt unat_byte
        is_cont_def cont_bits_def)

lemma second_ok_nat:
  "x0 < 256 \<Longrightarrow> x1 < 256 \<Longrightarrow>
   second_ok (of_nat x0) (of_nat x1) \<longleftrightarrow>
     (if x0 = 224 then 160 \<le> x1 \<and> x1 \<le> 191
      else if x0 = 237 then 128 \<le> x1 \<and> x1 \<le> 159
      else if x0 = 240 then 144 \<le> x1 \<and> x1 \<le> 191
      else if x0 = 244 then 128 \<le> x1 \<and> x1 \<le> 143
      else 128 \<le> x1 \<and> x1 \<le> 191)"
  by (simp add: second_ok_def is_cont_def word_le_nat_alt word_unat_eq_iff unat_byte)

lemma decode3:
  "224 \<le> x0 \<Longrightarrow> x0 \<le> 239 \<Longrightarrow> x1 < 256 \<Longrightarrow> second_ok (of_nat x0) (of_nat x1) \<Longrightarrow>
   128 \<le> x2 \<Longrightarrow> x2 \<le> 191 \<Longrightarrow>
   utf8_decode (of_nat x0 # of_nat x1 # of_nat x2 # r)
     = map_option (Cons ((x0 - 224) * 4096 + (x1 - 128) * 64 + (x2 - 128))) (utf8_decode r)"
  by (simp add: utf8_decode.simps(2) word_less_nat_alt word_le_nat_alt unat_byte
        is_cont_def cont_bits_def)

lemma decode4:
  "240 \<le> x0 \<Longrightarrow> x0 \<le> 244 \<Longrightarrow> x1 < 256 \<Longrightarrow> second_ok (of_nat x0) (of_nat x1) \<Longrightarrow>
   128 \<le> x2 \<Longrightarrow> x2 \<le> 191 \<Longrightarrow> 128 \<le> x3 \<Longrightarrow> x3 \<le> 191 \<Longrightarrow>
   utf8_decode (of_nat x0 # of_nat x1 # of_nat x2 # of_nat x3 # r)
     = map_option (Cons ((x0 - 240) * 262144 + (x1 - 128) * 4096 + (x2 - 128) * 64 + (x3 - 128)))
         (utf8_decode r)"
  by (simp add: utf8_decode.simps(2) word_less_nat_alt word_le_nat_alt unat_byte
        is_cont_def cont_bits_def)



lemma div64: "d < 64 \<Longrightarrow> (q * 64 + d) div 64 = (q::nat)"
  by simp

lemma mod64: "d < 64 \<Longrightarrow> (q * 64 + d) mod 64 = (d::nat)"
  by simp

lemma div4096: "(c::nat) div 4096 = c div 64 div 64"
  by (simp add: div_mult2_eq [symmetric])

lemma div262144: "(c::nat) div 262144 = c div 64 div 64 div 64"
  by (simp add: div_mult2_eq [symmetric])

text \<open>The encoder on a code point given by its digits in base 64.\<close>

lemma encode2:
  assumes "2 \<le> a" "a < 32" "b < 64"
  shows "utf8_encode_char (a * 64 + b) = [of_nat (192 + a), of_nat (128 + b)]"
    and "is_scalar_value (a * 64 + b)"
  using assms by (simp_all add: utf8_encode_char_def is_scalar_value_def)

lemma encode3:
  assumes "a < 16" "b < 64" "d < 64" "a = 0 \<Longrightarrow> 32 \<le> b" "a = 13 \<Longrightarrow> b < 32"
  shows "utf8_encode_char ((a * 64 + b) * 64 + d)
           = [of_nat (224 + a), of_nat (128 + b), of_nat (128 + d)]"
    and "is_scalar_value ((a * 64 + b) * 64 + d)"
proof -
  let ?c = "(a * 64 + b) * 64 + d"
  from assms have lo: "2048 \<le> ?c" and hi: "?c < 65536"
    by (cases "a = 0"; simp)+
  from assms have d: "?c div 64 = a * 64 + b" "?c mod 64 = d"
    by (simp_all only: div64 mod64)
  from assms have "?c div 4096 = a" "?c div 64 mod 64 = b"
    by (simp_all only: div4096 d div64 mod64)
  with lo hi d show "utf8_encode_char ?c = [of_nat (224 + a), of_nat (128 + b), of_nat (128 + d)]"
    by (simp add: utf8_encode_char_def)
  from assms show "is_scalar_value ?c"
    unfolding is_scalar_value_def by (cases "a < 13"; cases "a = 13") auto
qed

lemma encode4:
  assumes "a < 5" "b < 64" "d < 64" "e < 64" "a = 0 \<Longrightarrow> 16 \<le> b" "a = 4 \<Longrightarrow> b < 16"
  shows "utf8_encode_char (((a * 64 + b) * 64 + d) * 64 + e)
           = [of_nat (240 + a), of_nat (128 + b), of_nat (128 + d), of_nat (128 + e)]"
    and "is_scalar_value (((a * 64 + b) * 64 + d) * 64 + e)"
proof -
  let ?c = "((a * 64 + b) * 64 + d) * 64 + e"
  from assms have lo: "65536 \<le> ?c" and hi: "?c < 1114112"
    by (cases "a = 0"; cases "a = 4"; simp)+
  from assms have d: "?c div 64 = (a * 64 + b) * 64 + d" "?c mod 64 = e"
    by (simp_all only: div64 mod64)
  from assms have "?c div 262144 = a" "?c div 4096 mod 64 = b" "?c div 64 mod 64 = d"
    by (simp_all only: div262144 div4096 d div64 mod64)
  with lo hi d
  show "utf8_encode_char ?c
          = [of_nat (240 + a), of_nat (128 + b), of_nat (128 + d), of_nat (128 + e)]"
    by (simp add: utf8_encode_char_def)
  from lo hi show "is_scalar_value ?c"
    by (simp add: is_scalar_value_def)
qed


lemma base64_digits:
  obtains q d where "(c::nat) = q * 64 + d" "d < 64"
  using that [of "c div 64" "c mod 64"] by simp

lemma decode_encode_char:
  assumes "is_scalar_value c"
  shows "utf8_decode (utf8_encode_char c @ r) = map_option (Cons c) (utf8_decode r)"
proof -
  obtain q1 d where c: "c = q1 * 64 + d" "d < 64"
    by (rule base64_digits)
  obtain q2 b where q1: "q1 = q2 * 64 + b" "b < 64"
    by (rule base64_digits)
  obtain a3 a where q2: "q2 = a3 * 64 + a" "a < 64"
    by (rule base64_digits)
  consider "c < 128" | "128 \<le> c" "c < 2048" | "2048 \<le> c" "c < 65536" | "65536 \<le> c"
    by linarith
  then show ?thesis
  proof cases
    case 1
    then show ?thesis
      by (simp add: utf8_encode_char_def decode1)
  next
    case 2
    with c have q: "2 \<le> q1" "q1 < 32"
      by simp_all
    have enc: "utf8_encode_char c = [of_nat (192 + q1), of_nat (128 + d)]"
      unfolding c(1) using q c(2) by (rule encode2(1))
    have "utf8_decode ([of_nat (192 + q1), of_nat (128 + d)] @ r)
            = map_option (Cons ((192 + q1 - 192) * 64 + (128 + d - 128))) (utf8_decode r)"
      using decode2 [of "192 + q1" "128 + d" r] q c(2) by simp
    moreover have "(192 + q1 - 192) * 64 + (128 + d - 128) = c"
      using c(1) by simp
    ultimately show ?thesis
      unfolding enc by simp
  next
    case 3
    have cc: "c = (q2 * 64 + b) * 64 + d"
      using c(1) q1(1) by simp
    from 3 cc q1(2) c(2) have q: "q2 < 16" "q2 = 0 \<Longrightarrow> 32 \<le> b"
      by simp_all
    from assms 3 cc q1(2) c(2) have s: "q2 = 13 \<Longrightarrow> b < 32"
      by (simp add: is_scalar_value_def)
    have enc: "utf8_encode_char c = [of_nat (224 + q2), of_nat (128 + b), of_nat (128 + d)]"
      unfolding cc using q(1) q1(2) c(2) q(2) s by (rule encode3(1))
    from q s q1(2) have ok: "second_ok (of_nat (224 + q2)) (of_nat (128 + b))"
      by (subst second_ok_nat) auto
    have "utf8_decode ([of_nat (224 + q2), of_nat (128 + b), of_nat (128 + d)] @ r)
            = map_option (Cons ((224 + q2 - 224) * 4096 + (128 + b - 128) * 64 + (128 + d - 128)))
                (utf8_decode r)"
      using decode3 [of "224 + q2" "128 + b" "128 + d" r, OF _ _ _ ok] q q1(2) c(2) by simp
    moreover have "(224 + q2 - 224) * 4096 + (128 + b - 128) * 64 + (128 + d - 128) = c"
      using cc by simp
    ultimately show ?thesis
      unfolding enc by simp
  next
    case 4
    from assms have hi: "c < 1114112"
      by (auto simp: is_scalar_value_def)
    have cc: "c = ((a3 * 64 + a) * 64 + b) * 64 + d"
      using c(1) q1(1) q2(1) by simp
    from 4 hi cc q2(2) q1(2) c(2)
    have q: "a3 < 5" "a3 = 0 \<Longrightarrow> 16 \<le> a" "a3 = 4 \<Longrightarrow> a < 16"
      by simp_all
    have enc: "utf8_encode_char c
                 = [of_nat (240 + a3), of_nat (128 + a), of_nat (128 + b), of_nat (128 + d)]"
      unfolding cc using q(1) q2(2) q1(2) c(2) q(2) q(3) by (rule encode4(1))
    from q q2(2) have ok: "second_ok (of_nat (240 + a3)) (of_nat (128 + a))"
      by (subst second_ok_nat) auto
    have "utf8_decode ([of_nat (240 + a3), of_nat (128 + a), of_nat (128 + b), of_nat (128 + d)] @ r)
            = map_option
                (Cons ((240 + a3 - 240) * 262144 + (128 + a - 128) * 4096
                       + (128 + b - 128) * 64 + (128 + d - 128)))
                (utf8_decode r)"
      using decode4 [of "240 + a3" "128 + a" "128 + b" "128 + d" r, OF _ _ _ ok]
        q q2(2) q1(2) c(2) by simp
    moreover have "(240 + a3 - 240) * 262144 + (128 + a - 128) * 4096
                     + (128 + b - 128) * 64 + (128 + d - 128) = c"
      using cc by simp
    ultimately show ?thesis
      unfolding enc by simp
  qed
qed

lemma decode_encode:
  "list_all is_scalar_value s \<Longrightarrow> utf8_decode (utf8_encode s) = Some s"
  by (induction s) (simp_all add: utf8_encode_def decode_encode_char)

lemma second_ok_unat:
  "second_ok b0 b1 \<longleftrightarrow>
     (if unat b0 = 224 then 160 \<le> unat b1 \<and> unat b1 \<le> 191
      else if unat b0 = 237 then 128 \<le> unat b1 \<and> unat b1 \<le> 159
      else if unat b0 = 240 then 144 \<le> unat b1 \<and> unat b1 \<le> 191
      else if unat b0 = 244 then 128 \<le> unat b1 \<and> unat b1 \<le> 143
      else 128 \<le> unat b1 \<and> unat b1 \<le> 191)"
  by (simp add: second_ok_def is_cont_def word_le_nat_alt word_unat_eq_iff)

lemma decode_one:
  "unat b0 < 128 \<Longrightarrow> utf8_decode (b0 # bs) = map_option (Cons (unat b0)) (utf8_decode bs)"
  by (simp add: utf8_decode.simps(2) word_less_nat_alt)

lemma decode_two:
  "194 \<le> unat b0 \<Longrightarrow> unat b0 \<le> 223 \<Longrightarrow>
   utf8_decode (b0 # bs) =
     (case bs of
        b1 # r \<Rightarrow>
          if 128 \<le> unat b1 \<and> unat b1 \<le> 191
          then map_option (Cons ((unat b0 - 192) * 64 + (unat b1 - 128))) (utf8_decode r)
          else None
      | _ \<Rightarrow> None)"
  by (auto simp: utf8_decode.simps(2) word_less_nat_alt word_le_nat_alt is_cont_def cont_bits_def
      split: list.splits)

lemma decode_three:
  "224 \<le> unat b0 \<Longrightarrow> unat b0 \<le> 239 \<Longrightarrow>
   utf8_decode (b0 # bs) =
     (case bs of
        b1 # b2 # r \<Rightarrow>
          if second_ok b0 b1 \<and> 128 \<le> unat b2 \<and> unat b2 \<le> 191
          then map_option
                 (Cons ((unat b0 - 224) * 4096 + (unat b1 - 128) * 64 + (unat b2 - 128)))
                 (utf8_decode r)
          else None
      | _ \<Rightarrow> None)"
  by (auto simp: utf8_decode.simps(2) word_less_nat_alt word_le_nat_alt is_cont_def cont_bits_def
      split: list.splits)

lemma decode_four:
  "240 \<le> unat b0 \<Longrightarrow> unat b0 \<le> 244 \<Longrightarrow>
   utf8_decode (b0 # bs) =
     (case bs of
        b1 # b2 # b3 # r \<Rightarrow>
          if second_ok b0 b1 \<and> 128 \<le> unat b2 \<and> unat b2 \<le> 191
             \<and> 128 \<le> unat b3 \<and> unat b3 \<le> 191
          then map_option
                 (Cons ((unat b0 - 240) * 262144 + (unat b1 - 128) * 4096
                        + (unat b2 - 128) * 64 + (unat b3 - 128)))
                 (utf8_decode r)
          else None
      | _ \<Rightarrow> None)"
  by (auto simp: utf8_decode.simps(2) word_less_nat_alt word_le_nat_alt is_cont_def cont_bits_def
      split: list.splits)

lemma decode_other:
  "128 \<le> unat b0 \<Longrightarrow> unat b0 < 194 \<or> 244 < unat b0 \<Longrightarrow> utf8_decode (b0 # bs) = None"
  by (auto simp: utf8_decode.simps(2) word_less_nat_alt word_le_nat_alt)

lemma encode_decode:
  "utf8_decode bs = Some s \<Longrightarrow> list_all is_scalar_value s \<and> utf8_encode s = bs"
proof (induction bs arbitrary: s rule: length_induct)
  case (1 bs)
  note IH = "1.IH" [rule_format]
  show ?case
  proof (cases bs)
    case Nil
    with "1.prems" show ?thesis
      by (simp add: utf8_encode_def)
  next
    case (Cons b0 r0)
    with "1.prems" have dec: "utf8_decode (b0 # r0) = Some s"
      by simp
    consider (one) "unat b0 < 128"
      | (two) "194 \<le> unat b0" "unat b0 \<le> 223"
      | (three) "224 \<le> unat b0" "unat b0 \<le> 239"
      | (four) "240 \<le> unat b0" "unat b0 \<le> 244"
      | (other) "128 \<le> unat b0" "unat b0 < 194 \<or> 244 < unat b0"
      by linarith
    then show ?thesis
    proof cases
      case one
      with dec obtain s' where s': "utf8_decode r0 = Some s'" "s = unat b0 # s'"
        by (auto simp: decode_one)
      from IH [of r0 s'] s' Cons have "list_all is_scalar_value s' \<and> utf8_encode s' = r0"
        by simp
      moreover from one have "utf8_encode_char (unat b0) = [b0]" "is_scalar_value (unat b0)"
        by (simp_all add: utf8_encode_char_def is_scalar_value_def)
      ultimately show ?thesis
        using s' Cons by (simp add: utf8_encode_def)
    next
      case two
      with dec obtain b1 r s' where s': "r0 = b1 # r" "128 \<le> unat b1" "unat b1 \<le> 191"
        "utf8_decode r = Some s'" "s = ((unat b0 - 192) * 64 + (unat b1 - 128)) # s'"
        by (auto simp: decode_two split: list.splits if_splits)
      from IH [of r s'] s' Cons have ih: "list_all is_scalar_value s' \<and> utf8_encode s' = r"
        by simp
      let ?a = "unat b0 - 192" and ?b = "unat b1 - 128"
      from two s' have d: "2 \<le> ?a" "?a < 32" "?b < 64"
        by simp_all
      from two s' have "[of_nat (192 + ?a), of_nat (128 + ?b)] = [b0, b1]"
        by simp
      with encode2 [OF d] ih s' Cons show ?thesis
        by (simp add: utf8_encode_def)
    next
      case three
      with dec obtain b1 b2 r s' where s': "r0 = b1 # b2 # r" "second_ok b0 b1"
        "128 \<le> unat b2" "unat b2 \<le> 191" "utf8_decode r = Some s'"
        "s = ((unat b0 - 224) * 4096 + (unat b1 - 128) * 64 + (unat b2 - 128)) # s'"
        by (auto simp: decode_three split: list.splits if_splits)
      from IH [of r s'] s' Cons have ih: "list_all is_scalar_value s' \<and> utf8_encode s' = r"
        by simp
      let ?a = "unat b0 - 224" and ?b = "unat b1 - 128" and ?d = "unat b2 - 128"
      from s'(2) have b1: "128 \<le> unat b1" "unat b1 \<le> 191"
        "unat b0 = 224 \<Longrightarrow> 160 \<le> unat b1" "unat b0 = 237 \<Longrightarrow> unat b1 \<le> 159"
        by (simp_all add: second_ok_unat split: if_splits)
      from three s' b1
      have d: "?a < 16" "?b < 64" "?d < 64" "?a = 0 \<Longrightarrow> 32 \<le> ?b" "?a = 13 \<Longrightarrow> ?b < 32"
        by linarith+
      from three s' b1
      have b: "[of_nat (224 + ?a), of_nat (128 + ?b), of_nat (128 + ?d)] = [b0, b1, b2]"
        by simp
      have "(?a * 64 + ?b) * 64 + ?d = ?a * 4096 + ?b * 64 + ?d"
        by simp
      with encode3 [OF d] b ih s' Cons show ?thesis
        by (simp add: utf8_encode_def)
    next
      case four
      with dec obtain b1 b2 b3 r s' where s': "r0 = b1 # b2 # b3 # r" "second_ok b0 b1"
        "128 \<le> unat b2" "unat b2 \<le> 191" "128 \<le> unat b3" "unat b3 \<le> 191"
        "utf8_decode r = Some s'"
        "s = ((unat b0 - 240) * 262144 + (unat b1 - 128) * 4096 + (unat b2 - 128) * 64
              + (unat b3 - 128)) # s'"
        by (auto simp: decode_four split: list.splits if_splits)
      from IH [of r s'] s' Cons have ih: "list_all is_scalar_value s' \<and> utf8_encode s' = r"
        by simp
      let ?a = "unat b0 - 240" and ?b = "unat b1 - 128" and ?d = "unat b2 - 128"
        and ?e = "unat b3 - 128"
      from s'(2) have b1: "128 \<le> unat b1" "unat b1 \<le> 191"
        "unat b0 = 240 \<Longrightarrow> 144 \<le> unat b1" "unat b0 = 244 \<Longrightarrow> unat b1 \<le> 143"
        by (simp_all add: second_ok_unat split: if_splits)
      from four s' b1
      have d: "?a < 5" "?b < 64" "?d < 64" "?e < 64" "?a = 0 \<Longrightarrow> 16 \<le> ?b" "?a = 4 \<Longrightarrow> ?b < 16"
        by linarith+
      from four s' b1
      have b: "[of_nat (240 + ?a), of_nat (128 + ?b), of_nat (128 + ?d), of_nat (128 + ?e)]
                 = [b0, b1, b2, b3]"
        by simp
      have "((?a * 64 + ?b) * 64 + ?d) * 64 + ?e = ?a * 262144 + ?b * 4096 + ?d * 64 + ?e"
        by simp
      with encode4 [OF d] b ih s' Cons show ?thesis
        by (simp add: utf8_encode_def)
    next
      case other
      with dec show ?thesis
        by (simp add: decode_other)
    qed
  qed
qed

lemma utf8_decode_iff:
  "utf8_decode bs = Some s \<longleftrightarrow> list_all is_scalar_value s \<and> bs = utf8_encode s"
  using encode_decode [of bs s] decode_encode [of s] by auto

lemma malformed_not_encoding:
  "utf8_decode bs = None \<Longrightarrow> list_all is_scalar_value s \<Longrightarrow> bs \<noteq> utf8_encode s"
  using decode_encode [of s] by auto

lemma decode_utf8_bytes:
  "decode_utf8 (PyBytes bs) = Inr (PyStr s) \<longleftrightarrow> list_all is_scalar_value s \<and> bs = utf8_encode s"
  "decode_utf8 (PyBytes bs) = Inl UnicodeDecodeError
     \<longleftrightarrow> (\<forall>s. list_all is_scalar_value s \<longrightarrow> bs \<noteq> utf8_encode s)"
  "decode_utf8 (PyBytes bs) \<noteq> Inr (PyList xs)"
proof -
  show "decode_utf8 (PyBytes bs) = Inr (PyStr s)
          \<longleftrightarrow> list_all is_scalar_value s \<and> bs = utf8_encode s"
    using utf8_decode_iff [of bs s] by (cases "utf8_decode bs") auto
  show "decode_utf8 (PyBytes bs) = Inl UnicodeDecodeError
          \<longleftrightarrow> (\<forall>s. list_all is_scalar_value s \<longrightarrow> bs \<noteq> utf8_encode s)"
  proof (cases "utf8_decode bs")
    case None
    then show ?thesis
      by (auto dest: malformed_not_encoding)
  next
    case (Some t)
    with utf8_decode_iff [of bs t] show ?thesis
      by auto
  qed
  show "decode_utf8 (PyBytes bs) \<noteq> Inr (PyList xs)"
    by (cases "utf8_decode bs") auto
qed

section \<open>Basic facts\<close>

lemma str_int_examples:
  "str_int 6 = ustr ''6''" "str_int 1861 = ustr ''1861''" "str_int (- 5) = ustr ''-5''"
  by (simp_all add: str_int_def str_nat.simps digit_def ustr_def)

lemma utf8_decode_examples:
  "utf8_decode [0x61, 0x62, 0x63] = Some (ustr ''abc'')"
  "utf8_decode [0xC3, 0xA9, 0xE2, 0x82, 0xAC, 0xF0, 0x9F, 0x98, 0x80] = Some [233, 8364, 128512]"
  "utf8_decode [0xFF] = None"
  "utf8_decode [0xC3, 0x28] = None"
  "utf8_decode [0xE2, 0x82] = None"
  "utf8_decode [0xC0, 0x80] = None"
  "utf8_decode [0xED, 0xA0, 0x80] = None"
  by (simp_all add: utf8_decode.simps(2) is_cont_def cont_bits_def second_ok_def ustr_def)

lemma utf8_encode_example:
  "utf8_encode [233, 8364, 128512] = [0xC3, 0xA9, 0xE2, 0x82, 0xAC, 0xF0, 0x9F, 0x98, 0x80]"
  by (simp add: utf8_encode_def utf8_encode_char_def)

lemma type_name_array_iff: "type_name t = ''PyCArrayType'' \<longleftrightarrow> (\<exists>e n. t = Array e n)"
  by (cases t) simp_all

lemma type_is_string_array: "type_is_string (Array e n) \<longleftrightarrow> e = PLCTYPE_STRING"
  by (simp add: type_is_string_def PLCTYPE_STRING_def)

lemma getattr_value_not_None: "getattr_value x = Inr v \<Longrightarrow> x \<noteq> PyNone"
  by (cases x) simp_all

lemma py_iter_not_None: "py_iter x = Inr xs \<Longrightarrow> x \<noteq> PyNone"
  by (cases x) simp_all

lemma msg_of_init:
  "getattr (ADSError_init T code text) ''msg'' =
     Inr (PyStr ((case code of
                    None \<Rightarrow> []
                  | Some c \<Rightarrow>
                      (case T c of
                         Some d \<Rightarrow> d @ ustr '' ('' @ str_int c @ ustr ''). ''
                       | None \<Rightarrow> ustr ''Unknown Error ('' @ str_int c @ ustr ''). ''))
                 @ (case text of None \<Rightarrow> [] | Some t \<Rightarrow> t)))"
  by (simp add: ADSError_init_def getattr_def dict_getitem_def ustr_def
           split: option.splits)

lemma fresh_fd_aux: "(k, s) \<in> set xs \<Longrightarrow> k < foldr (\<lambda>(fd, s) m. max (Suc fd) m) xs 0"
  by (induction xs) auto

lemma fresh_fd_fresh: "fresh_fd w \<notin> fst ` set (open_sockets w)"
  using fresh_fd_aux [of "fresh_fd w" _ "open_sockets w"]
  by (auto simp: fresh_fd_def)

lemma update_fresh:
  "fd \<notin> fst ` set xs \<Longrightarrow> map (\<lambda>(k, s). if k = fd then (k, f s) else (k, s)) xs = xs"
  by (induction xs) auto

lemma filter_fresh:
  "fd \<notin> fst ` set xs \<Longrightarrow> filter (\<lambda>(k, s). k \<noteq> fd) xs = xs"
  by (induction xs) auto

text \<open>
  Every path through \<^verbatim>\<open>send_raw_udp_message\<close>, with the state it leaves: \<open>out\<close> is the
  common shape, the calls between the creation of the socket and its closing.
\<close>

lemma send_raw_udp_message_paths:
  "send_raw_udp_message P env ip m n w =
     (case socket_error env of
        Some e \<Rightarrow> Some (Inl e, w)
      | None \<Rightarrow>
          (let fd = fresh_fd w;
               out = (\<lambda>r evs c. Some (r, w\<lparr>trace := trace w @ EvSocket fd # evs @ [EvClose fd],
                                            clock := c\<rparr>));
               b = EvBind fd ('''', 0);
               s = EvSendTo fd m (ip, P);
               t = EvSetTimeout fd 5;
               v = EvRecvFrom fd n
           in case bind_result env of
                Inl e \<Rightarrow> out (Inl e) [b] (clock w)
              | Inr p \<Rightarrow>
                  (case sendto_error env of
                     Some e \<Rightarrow> out (Inl e) [b, s] (clock w)
                   | None \<Rightarrow>
                       if n < - ssize_max env - 1 \<or> ssize_max env < n
                       then out (Inl OverflowError) [b, s, t, v] (clock w)
                       else if n < 0 then out (Inl ValueError) [b, s, t, v] (clock w)
                       else (case alloc_error env (nat n) of
                               Some e \<Rightarrow> out (Inl e) [b, s, t, v] (clock w)
                             | None \<Rightarrow>
                                 (case reply env of
                                    None \<Rightarrow> out (Inl TimeoutError) [b, s, t, v] (clock w + 5)
                                  | Some (d, arrival) \<Rightarrow>
                                      if d < 5
                                      then (case arrival of
                                              Inl e \<Rightarrow> out (Inl e) [b, s, t, v] (clock w + d)
                                            | Inr (data, sender) \<Rightarrow>
                                                out (Inr (take (nat n) data, sender)) [b, s, t, v]
                                                  (clock w + d))
                                      else out (Inl TimeoutError) [b, s, t, v] (clock w + 5))))))"
  using fresh_fd_fresh [of w]
  by (simp add: send_raw_udp_message_def io_bind_def closing_def socket_socket_def
         sock_bind_def sock_sendto_def sock_settimeout_def sock_recvfrom_def sock_close_def
         log_event_def update_socket_def Let_def update_fresh filter_fresh
       split: option.splits sum.splits prod.splits)

lemma fresh_fd_idle: "fresh_fd idle = 4"
  by (simp add: fresh_fd_def idle_def)

text \<open>
  Three runs of the model: a socket in blocking mode that nothing reaches never returns
  from \<^verbatim>\<open>recvfrom\<close>; an exchange whose reply of three bytes arrives after a fifth of
  a second returns the two bytes asked for, with the sender; and an exchange that asks
  for more bytes than the interpreter can count raises at once.
\<close>

lemma recvfrom_blocking_example: "sock_recvfrom quiet 3 10 idle = None"
  by (simp add: sock_recvfrom_def quiet_def idle_def log_event_def)

lemma exchange_reply_example:
  "send_raw_udp_message 48899
     (quiet\<lparr>reply := Some (1 / 5, Inr ([7, 8, 9], (''10.0.0.1'', 48899)))\<rparr>)
     ''10.0.0.1'' [1, 2] 2 idle =
   Some (Inr ([7, 8], (''10.0.0.1'', 48899)),
         idle\<lparr>trace := [EvSocket 4, EvBind 4 ('''', 0), EvSendTo 4 [1, 2] (''10.0.0.1'', 48899),
                         EvSetTimeout 4 5, EvRecvFrom 4 2, EvClose 4],
               clock := 1 / 5\<rparr>)"
  by (simp add: send_raw_udp_message_paths fresh_fd_idle quiet_def) (simp add: idle_def)

lemma exchange_overflow_example:
  "send_raw_udp_message 48899 quiet ''10.0.0.1'' [1, 2] 9223372036854775808 idle =
   Some (Inl OverflowError,
         idle\<lparr>trace := [EvSocket 4, EvBind 4 ('''', 0), EvSendTo 4 [1, 2] (''10.0.0.1'', 48899),
                         EvSetTimeout 4 5, EvRecvFrom 4 9223372036854775808, EvClose 4],
               clock := 0\<rparr>)"
  by (simp add: send_raw_udp_message_paths fresh_fd_idle quiet_def) (simp add: idle_def)

section \<open>ErrorReporter\<close>

text \<open>
  C2. The message of \<^verbatim>\<open>ADSError(err_code, text)\<close>: for a code in the table it is the
  description, a space, the code in parentheses, a full stop and a space; for a code
  that is not in the table the description is replaced by \<^verbatim>\<open>Unknown Error\<close>; a text
  is appended to the message built from the code, whatever the code is; without a code
  the message is the text alone, and without code and text it is empty.
\<close>

theorem makeError_message:
  "(T c = Some d \<longrightarrow>
      getattr (ADSError_init T (Some c) None) ''msg''
        = Inr (PyStr (d @ ustr '' ('' @ str_int c @ ustr ''). '')))
   \<and> (T c = None \<longrightarrow>
      getattr (ADSError_init T (Some c) None) ''msg''
        = Inr (PyStr (ustr ''Unknown Error ('' @ str_int c @ ustr ''). '')))
   \<and> (\<exists>m. getattr (ADSError_init T code None) ''msg'' = Inr (PyStr m)
          \<and> getattr (ADSError_init T code (Some t)) ''msg'' = Inr (PyStr (m @ t)))
   \<and> getattr (ADSError_init T None (Some x)) ''msg'' = Inr (PyStr x)
   \<and> getattr (ADSError_init T None None) ''msg'' = Inr (PyStr [])"
  by (simp add: msg_of_init split: option.splits)

theorem makeError_message_witness:
  "getattr (ADSError_init sample_codes (Some 6) None) ''msg''
     = Inr (PyStr (ustr ''target port not found (6). ''))
   \<and> getattr (ADSError_init sample_codes (Some 1861) None) ''msg''
     = Inr (PyStr (ustr ''Unknown Error (1861). ''))
   \<and> getattr (ADSError_init sample_codes (Some 6) (Some (ustr ''x''))) ''msg''
     = Inr (PyStr (ustr ''target port not found (6). x''))
   \<and> getattr (ADSError_init sample_codes None (Some (ustr ''x''))) ''msg''
     = Inr (PyStr (ustr ''x''))"
proof -
  have known: "sample_codes 6 = Some (ustr ''target port not found'')"
    by (simp add: sample_codes_def)
  have unknown: "sample_codes 1861 = None"
    by (simp add: sample_codes_def)
  from makeError_message
         [of sample_codes 6 "ustr ''target port not found''" "Some 6" "ustr ''x''" "ustr ''x''"]
       makeError_message [of sample_codes 1861 "[]" None "[]" "[]"]
  show ?thesis
    by (simp add: known unknown str_int_examples) (auto simp: ustr_def)
qed

text \<open>
  C10. With a code the instance has the attribute \<^verbatim>\<open>err_code\<close>, equal to the code;
  without a code the constructor does not set the attribute, and reading it raises
  \<^verbatim>\<open>AttributeError\<close>.
\<close>

theorem err_code_attribute:
  "getattr (ADSError_init T (Some c) text) ''err_code'' = Inr (PyInt c)
   \<and> ADSError_init T None text ''err_code'' = None
   \<and> getattr (ADSError_init T None text) ''err_code'' = Inl AttributeError"
  by (simp add: ADSError_init_def getattr_def split: sum.splits option.splits)

section \<open>ValueCodec\<close>

text \<open>
  C3. \<^verbatim>\<open>type_is_string\<close> holds of the single-character string descriptor and of the
  arrays of it, of any length, and of nothing else; so it fails on every scalar numeric
  descriptor and on every array whose element descriptor is another one.
\<close>

theorem type_is_string_exact:
  "(type_is_string t \<longleftrightarrow> t = PLCTYPE_STRING \<or> (\<exists>n. t = Array PLCTYPE_STRING n))
   \<and> (is_scalar_numeric t \<longrightarrow> \<not> type_is_string t)
   \<and> (e \<noteq> PLCTYPE_STRING \<longrightarrow> \<not> type_is_string (Array e n))"
  by (cases t) (auto simp: type_is_string_def PLCTYPE_STRING_def)

theorem type_is_string_exact_witness:
  "type_is_string c_char \<and> type_is_string (Array c_char 80)
   \<and> \<not> type_is_string c_int32 \<and> \<not> type_is_string (Array c_int32 3)
   \<and> \<not> type_is_string (Array (Array c_char 80) 2)"
  using type_is_string_exact [of c_char c_int32 3]
    type_is_string_exact [of "Array c_char 80" "Array c_char 80" 2]
    type_is_string_exact [of c_int32 c_int32 3]
  by (simp add: PLCTYPE_STRING_def)

text \<open>
  C6. A buffer that is \<^verbatim>\<open>None\<close> is decoded to \<^verbatim>\<open>None\<close>, whatever the descriptor: no
  exception, and the descriptor plays no part.
\<close>

theorem decode_null:
  "get_value_from_ctype_data PyNone plc_type = Inr PyNone"
  by (simp add: get_value_from_ctype_data_def)

text \<open>
  The string path can raise. A character array of length two that holds the bytes
  \<open>0xC3\<close> and \<open>0x28\<close> conforms to its descriptor, and the second byte does not continue
  the first: the call ends in \<^verbatim>\<open>UnicodeDecodeError\<close> and returns no string.
\<close>

theorem decode_string_raises_on_malformed:
  "get_value_from_ctype_data
     (Object 0 (Gives (PyBytes [0xC3, 0x28])) (Yields [PyBytes [0xC3], PyBytes [0x28]]) Missing)
     (Array c_char 2) = Inl UnicodeDecodeError"
  by (simp add: get_value_from_ctype_data_def type_is_string_def PLCTYPE_STRING_def
        utf8_decode_examples)

text \<open>
  C4, as amended. For a string descriptor, a character array among them, and a buffer
  that holds a \<^verbatim>\<open>bytes\<close> object under \<^verbatim>\<open>value\<close>: when the bytes are the UTF-8
  encoding of a text, the result is that text, as one string; when they are the
  encoding of no text, the call raises \<^verbatim>\<open>UnicodeDecodeError\<close>; and the result is
  never the list of the items of the buffer, although a character array is iterable,
  since the string test comes before the array test.
\<close>

theorem decode_string:
  assumes "type_is_string plc_type"
    and "getattr_value read_data = Inr (PyBytes bs)"
  shows "(\<forall>s. list_all is_scalar_value s \<and> bs = utf8_encode s \<longrightarrow>
            get_value_from_ctype_data read_data plc_type = Inr (PyStr s))
         \<and> ((\<forall>s. list_all is_scalar_value s \<longrightarrow> bs \<noteq> utf8_encode s) \<longrightarrow>
            get_value_from_ctype_data read_data plc_type = Inl UnicodeDecodeError)
         \<and> (\<forall>xs. get_value_from_ctype_data read_data plc_type \<noteq> Inr (PyList xs))"
proof -
  from assms getattr_value_not_None [OF assms(2)]
  have "get_value_from_ctype_data read_data plc_type = decode_utf8 (PyBytes bs)"
    by (simp add: get_value_from_ctype_data_def)
  then show ?thesis
    using decode_utf8_bytes(1) [of bs] decode_utf8_bytes(2) [of bs] decode_utf8_bytes(3) [of bs]
    by metis
qed

theorem decode_string_witness:
  "get_value_from_ctype_data euro_buffer (Array c_char 9) = Inr (PyStr [233, 8364, 128512])
   \<and> get_value_from_ctype_data char_buffer (Array c_char 3) = Inr (PyStr (ustr ''abc''))
   \<and> get_value_from_ctype_data
        (Object 8 (Gives (PyBytes [0xE2, 0x82])) (Yields [PyBytes [0xE2], PyBytes [0x82]]) Missing)
        (Array c_char 3) = Inl UnicodeDecodeError"
proof -
  have str: "type_is_string (Array c_char 9)" "type_is_string (Array c_char 3)"
    by (simp_all add: type_is_string_array PLCTYPE_STRING_def)
  have euro: "list_all is_scalar_value [233, 8364, 128512]"
    by (simp add: is_scalar_value_def)
  have abc: "list_all is_scalar_value (ustr ''abc'')"
    "[0x61, 0x62, 0x63] = utf8_encode (ustr ''abc'')"
    by (simp_all add: is_scalar_value_def ustr_def utf8_encode_def utf8_encode_char_def)
  have bad: "\<forall>s. list_all is_scalar_value s \<longrightarrow> [0xE2, 0x82] \<noteq> utf8_encode s"
    using malformed_not_encoding [OF utf8_decode_examples(5)] by blast
  have a: "get_value_from_ctype_data euro_buffer (Array c_char 9)
             = Inr (PyStr [233, 8364, 128512])"
  proof -
    have "getattr_value euro_buffer
            = Inr (PyBytes [0xC3, 0xA9, 0xE2, 0x82, 0xAC, 0xF0, 0x9F, 0x98, 0x80])"
      by (simp add: euro_buffer_def)
    from decode_string [OF str(1) this] euro utf8_encode_example [symmetric]
    show ?thesis
      by blast
  qed
  have b: "get_value_from_ctype_data char_buffer (Array c_char 3) = Inr (PyStr (ustr ''abc''))"
    using decode_string [of "Array c_char 3" char_buffer "[0x61, 0x62, 0x63]"] str abc
    by (simp add: char_buffer_def)
  have c: "get_value_from_ctype_data
        (Object 8 (Gives (PyBytes [0xE2, 0x82])) (Yields [PyBytes [0xE2], PyBytes [0x82]]) Missing)
        (Array c_char 3) = Inl UnicodeDecodeError"
    using decode_string
            [of "Array c_char 3"
                "Object 8 (Gives (PyBytes [0xE2, 0x82])) (Yields [PyBytes [0xE2], PyBytes [0x82]])
                   Missing"
                "[0xE2, 0x82]"]
      str bad
    by simp
  from a b c show ?thesis
    by blast
qed

text \<open>
  C5. For an array descriptor whose elements are not the single-character string
  descriptor, the result is the list of the items that iterating the buffer yields, in
  their order: for an array of three integers holding 1, 2, 3 it is the list
  \<open>[1, 2, 3]\<close>.
\<close>

theorem decode_array:
  assumes "plc_type = Array e n" and "e \<noteq> PLCTYPE_STRING"
    and "py_iter read_data = Inr xs"
  shows "get_value_from_ctype_data read_data plc_type = Inr (PyList xs)"
  using assms py_iter_not_None [OF assms(3)]
  by (simp add: get_value_from_ctype_data_def type_is_string_array)

theorem decode_array_witness:
  "get_value_from_ctype_data int_buffer (Array c_int32 3)
     = Inr (PyList [PyInt 1, PyInt 2, PyInt 3])"
proof -
  have "c_int32 \<noteq> PLCTYPE_STRING"
    by (simp add: PLCTYPE_STRING_def)
  moreover have "py_iter int_buffer = Inr [PyInt 1, PyInt 2, PyInt 3]"
    by (simp add: int_buffer_def)
  ultimately show ?thesis
    using decode_array [of "Array c_int32 3" c_int32 3 int_buffer "[PyInt 1, PyInt 2, PyInt 3]"]
    by simp
qed

text \<open>
  C7. For a buffer that is not \<^verbatim>\<open>None\<close> and a descriptor that is neither a string
  type nor an array type: a buffer with the attribute \<^verbatim>\<open>value\<close> is decoded to that
  value, and a buffer without it is returned as it is.
\<close>

theorem decode_scalar:
  assumes "read_data \<noteq> PyNone" and "\<not> type_is_string plc_type"
    and "\<not> (\<exists>e n. plc_type = Array e n)"
  shows "(getattr_value read_data = Inr v \<longrightarrow>
            get_value_from_ctype_data read_data plc_type = Inr v)
         \<and> (hasattr_value read_data = Inr False \<longrightarrow>
            get_value_from_ctype_data read_data plc_type = Inr read_data)"
  using assms
  by (auto simp: get_value_from_ctype_data_def type_name_array_iff hasattr_value_def)

theorem decode_scalar_witness:
  "get_value_from_ctype_data (Object 5 (Gives (PyInt 42)) NotIterable Missing) c_int32
     = Inr (PyInt 42)
   \<and> get_value_from_ctype_data (Object 6 Missing NotIterable Missing)
        (Structure ''SAdsSymbolEntry'')
       = Inr (Object 6 Missing NotIterable Missing)"
proof -
  have "\<not> type_is_string c_int32" "\<not> type_is_string (Structure ''SAdsSymbolEntry'')"
    by (simp_all add: type_is_string_def PLCTYPE_STRING_def)
  then show ?thesis
    using decode_scalar [of "Object 5 (Gives (PyInt 42)) NotIterable Missing" c_int32 "PyInt 42"]
      decode_scalar [of "Object 6 Missing NotIterable Missing" "Structure ''SAdsSymbolEntry''"
                        PyNone]
    by (simp add: hasattr_value_def)
qed

text \<open>
  Decoding can raise. A character array of length one that holds the byte \<open>0xFF\<close>
  conforms to its descriptor, and its content is not UTF-8: the call ends in
  \<^verbatim>\<open>UnicodeDecodeError\<close>.
\<close>

theorem decode_raises_on_invalid_utf8:
  "get_value_from_ctype_data
     (Object 0 (Gives (PyBytes [0xFF])) (Yields [PyBytes [0xFF]]) Missing)
     (Array c_char 1) = Inl UnicodeDecodeError"
  by (simp add: get_value_from_ctype_data_def type_is_string_def PLCTYPE_STRING_def
        utf8_decode_examples)

text \<open>
  C1, as amended. \<^verbatim>\<open>None\<close> is decoded to \<^verbatim>\<open>None\<close>. With a descriptor that is
  neither a string type nor an array type, a buffer without the attribute \<^verbatim>\<open>value\<close>
  is returned as it is and a buffer with it is decoded to that value. The call handles
  no exception, and it raises exactly when an operation it performs on a buffer that is
  not \<^verbatim>\<open>None\<close> does: with a string descriptor, reading \<^verbatim>\<open>value\<close> or decoding what
  was read; with another array descriptor, iterating the buffer; with any other
  descriptor, reading \<^verbatim>\<open>value\<close>, unless the exception is \<^verbatim>\<open>AttributeError\<close>. In
  particular a string descriptor and a \<^verbatim>\<open>bytes\<close> value that is the UTF-8 encoding of
  no text give \<^verbatim>\<open>UnicodeDecodeError\<close>.
\<close>

theorem decode_outcome:
  "(read_data = PyNone \<longrightarrow> get_value_from_ctype_data read_data plc_type = Inr PyNone)
   \<and> (\<not> type_is_string plc_type \<and> \<not> (\<exists>e n. plc_type = Array e n) \<longrightarrow>
        (getattr_value read_data = Inl AttributeError \<longrightarrow>
           get_value_from_ctype_data read_data plc_type = Inr read_data)
        \<and> (getattr_value read_data = Inr v \<longrightarrow>
           get_value_from_ctype_data read_data plc_type = Inr v))
   \<and> (get_value_from_ctype_data read_data plc_type = Inl err \<longleftrightarrow>
        read_data \<noteq> PyNone
        \<and> (if type_is_string plc_type
            then getattr_value read_data = Inl err
                 \<or> (\<exists>x. getattr_value read_data = Inr x \<and> decode_utf8 x = Inl err)
            else if \<exists>e n. plc_type = Array e n
            then py_iter read_data = Inl err
            else getattr_value read_data = Inl err \<and> err \<noteq> AttributeError))
   \<and> (type_is_string plc_type \<and> getattr_value read_data = Inr (PyBytes bs)
        \<and> (\<forall>s. list_all is_scalar_value s \<longrightarrow> bs \<noteq> utf8_encode s) \<longrightarrow>
        get_value_from_ctype_data read_data plc_type = Inl UnicodeDecodeError)"
proof (intro conjI)
  show "read_data = PyNone \<longrightarrow> get_value_from_ctype_data read_data plc_type = Inr PyNone"
    by (simp add: get_value_from_ctype_data_def)
next
  show "\<not> type_is_string plc_type \<and> \<not> (\<exists>e n. plc_type = Array e n) \<longrightarrow>
        (getattr_value read_data = Inl AttributeError \<longrightarrow>
           get_value_from_ctype_data read_data plc_type = Inr read_data)
        \<and> (getattr_value read_data = Inr v \<longrightarrow>
           get_value_from_ctype_data read_data plc_type = Inr v)"
    by (auto simp: get_value_from_ctype_data_def type_name_array_iff hasattr_value_def)
next
  show "get_value_from_ctype_data read_data plc_type = Inl err \<longleftrightarrow>
        read_data \<noteq> PyNone
        \<and> (if type_is_string plc_type
            then getattr_value read_data = Inl err
                 \<or> (\<exists>x. getattr_value read_data = Inr x \<and> decode_utf8 x = Inl err)
            else if \<exists>e n. plc_type = Array e n
            then py_iter read_data = Inl err
            else getattr_value read_data = Inl err \<and> err \<noteq> AttributeError)"
  proof (cases "read_data = PyNone")
    case True
    then show ?thesis
      by (simp add: get_value_from_ctype_data_def)
  next
    case present: False
    show ?thesis
    proof (cases "type_is_string plc_type")
      case True
      with present show ?thesis
        by (cases "getattr_value read_data") (auto simp: get_value_from_ctype_data_def)
    next
      case no_string: False
      show ?thesis
      proof (cases "\<exists>e n. plc_type = Array e n")
        case True
        with present no_string show ?thesis
          by (cases "py_iter read_data")
            (auto simp: get_value_from_ctype_data_def type_name_array_iff)
      next
        case False
        with present no_string show ?thesis
          by (cases "getattr_value read_data")
            (auto simp: get_value_from_ctype_data_def type_name_array_iff hasattr_value_def)
      qed
    qed
  qed
next
  show "type_is_string plc_type \<and> getattr_value read_data = Inr (PyBytes bs)
        \<and> (\<forall>s. list_all is_scalar_value s \<longrightarrow> bs \<noteq> utf8_encode s) \<longrightarrow>
        get_value_from_ctype_data read_data plc_type = Inl UnicodeDecodeError"
    using decode_utf8_bytes(2) [of bs]
    by (auto simp: get_value_from_ctype_data_def dest: getattr_value_not_None)
qed

theorem decode_outcome_witness:
  "get_value_from_ctype_data broken_wchar c_wchar = Inl ValueError
   \<and> get_value_from_ctype_data broken_wchar_array (Array c_wchar 2) = Inl ValueError
   \<and> get_value_from_ctype_data (Object 9 (Gives (PyBytes [0xC0, 0x80])) NotIterable Missing) c_char
       = Inl UnicodeDecodeError
   \<and> (\<forall>err. get_value_from_ctype_data
               (Object 10 (Gives (PyByteArray [0x61, 0x62, 0x63])) NotIterable Missing) c_char
             \<noteq> Inl err)
   \<and> get_value_from_ctype_data (Object 6 Missing NotIterable Missing) c_double
       = Inr (Object 6 Missing NotIterable Missing)"
proof -
  have str: "type_is_string c_char" "\<not> type_is_string c_wchar"
    "\<not> type_is_string (Array c_wchar 2)" "\<not> type_is_string c_double"
    by (simp_all add: type_is_string_def PLCTYPE_STRING_def)
  have bad: "\<forall>s. list_all is_scalar_value s \<longrightarrow> [0xC0, 0x80] \<noteq> utf8_encode s"
    using malformed_not_encoding [OF utf8_decode_examples(6)] by blast
  have a: "get_value_from_ctype_data broken_wchar c_wchar = Inl ValueError"
    using decode_outcome [of broken_wchar c_wchar PyNone ValueError "[]"] str
    by (simp add: broken_wchar_def)
  have b: "get_value_from_ctype_data broken_wchar_array (Array c_wchar 2) = Inl ValueError"
    using decode_outcome [of broken_wchar_array "Array c_wchar 2" PyNone ValueError "[]"] str
    by (simp add: broken_wchar_array_def)
  have c: "get_value_from_ctype_data (Object 9 (Gives (PyBytes [0xC0, 0x80])) NotIterable Missing)
             c_char = Inl UnicodeDecodeError"
    using decode_outcome
            [of "Object 9 (Gives (PyBytes [0xC0, 0x80])) NotIterable Missing" c_char PyNone
                UnicodeDecodeError "[0xC0, 0x80]"]
      str bad
    by simp
  have d: "get_value_from_ctype_data
             (Object 10 (Gives (PyByteArray [0x61, 0x62, 0x63])) NotIterable Missing) c_char
           \<noteq> Inl err" for err
    using decode_outcome
            [of "Object 10 (Gives (PyByteArray [0x61, 0x62, 0x63])) NotIterable Missing" c_char
                PyNone err "[]"]
      str
    by (simp add: utf8_decode_examples)
  have e: "get_value_from_ctype_data (Object 6 Missing NotIterable Missing) c_double
             = Inr (Object 6 Missing NotIterable Missing)"
    using decode_outcome [of "Object 6 Missing NotIterable Missing" c_double PyNone ValueError "[]"]
      str
    by simp
  from a b c d e show ?thesis
    by blast
qed

section \<open>DatagramExchange\<close>

text \<open>
  C8. When the socket is created, bound and the message sent, the size asked for is one
  that \<^verbatim>\<open>recvfrom\<close> accepts (not negative, within the range of the interpreter's
  machine integer, and such that the receive buffer can be allocated) and nothing
  reaches the socket, the call sets a timeout of 5 seconds, waits once for the reply,
  and after those 5 seconds ends in \<^verbatim>\<open>TimeoutError\<close>, the exception of
  \<^verbatim>\<open>recvfrom\<close> itself: there is one \<^verbatim>\<open>recvfrom\<close> in the calls made, the caller
  has been blocked for 5 seconds, and the call has returned, with its socket closed.
\<close>

theorem exchange_timeout:
  assumes "socket_error env = None" and "bind_result env = Inr p"
    and "sendto_error env = None"
    and "0 \<le> n" and "n \<le> ssize_max env" and "alloc_error env (nat n) = None"
    and "reply env = None"
  shows "send_raw_udp_message P env ip m n w =
           Some (Inl TimeoutError,
                 w\<lparr>trace := trace w @
                      [EvSocket (fresh_fd w), EvBind (fresh_fd w) ('''', 0),
                       EvSendTo (fresh_fd w) m (ip, P), EvSetTimeout (fresh_fd w) 5,
                       EvRecvFrom (fresh_fd w) n, EvClose (fresh_fd w)],
                   clock := clock w + 5\<rparr>)"
  using assms by (simp add: send_raw_udp_message_paths Let_def)

theorem exchange_timeout_witness:
  "send_raw_udp_message 48899 quiet ''10.0.0.1'' [1, 2] 10 idle =
     Some (Inl TimeoutError,
           \<lparr>open_sockets = [(3, \<lparr>bound_to = None, timeout = None\<rparr>)],
            trace = [EvSocket 4, EvBind 4 ('''', 0), EvSendTo 4 [1, 2] (''10.0.0.1'', 48899),
                     EvSetTimeout 4 5, EvRecvFrom 4 10, EvClose 4],
            clock = 5\<rparr>)"
proof -
  have "socket_error quiet = None" "bind_result quiet = Inr 50000"
    "sendto_error quiet = None" "(0::int) \<le> 10" "10 \<le> ssize_max quiet"
    "alloc_error quiet (nat 10) = None" "reply quiet = None"
    by (simp_all add: quiet_def)
  from exchange_timeout [OF this, of 48899 "''10.0.0.1''" "[1, 2]" idle] show ?thesis
    by (simp add: fresh_fd_idle) (simp add: idle_def)
qed

text \<open>
  C9. Whatever the system and the network do, the call returns or raises, and the open
  sockets are then the ones that were open before it. When the socket could be created,
  it is one that was not open before, its creation is the first call made and its
  closing the last; when it could not, that error is raised and nothing was opened.
\<close>

theorem exchange_releases_socket:
  "\<exists>r w'. send_raw_udp_message P env ip m n w = Some (r, w')
      \<and> open_sockets w' = open_sockets w
      \<and> (case socket_error env of
            Some e \<Rightarrow> r = Inl e \<and> trace w' = trace w
          | None \<Rightarrow>
              fresh_fd w \<notin> fst ` set (open_sockets w)
              \<and> (\<exists>evs. trace w' = trace w @ EvSocket (fresh_fd w) # evs @ [EvClose (fresh_fd w)]))"
proof (cases "socket_error env")
  case (Some e)
  then show ?thesis
    by (simp add: send_raw_udp_message_paths)
next
  case None
  have "\<exists>r evs c. send_raw_udp_message P env ip m n w =
      Some (r, w\<lparr>trace := trace w @ EvSocket (fresh_fd w) # evs @ [EvClose (fresh_fd w)],
                  clock := c\<rparr>)"
    unfolding send_raw_udp_message_paths Let_def using None
    by (simp only: option.case split: sum.split option.split prod.split if_split) blast
  then obtain r evs c where "send_raw_udp_message P env ip m n w =
      Some (r, w\<lparr>trace := trace w @ EvSocket (fresh_fd w) # evs @ [EvClose (fresh_fd w)],
                  clock := c\<rparr>)"
    by blast
  with None fresh_fd_fresh [of w] show ?thesis
    by simp
qed

theorem exchange_releases_socket_witness:
  "\<exists>r w'. send_raw_udp_message 48899 (quiet\<lparr>sendto_error := Some OSError\<rparr>)
             ''10.0.0.1'' [1, 2] 10 idle = Some (r, w')
      \<and> open_sockets w' = [(3, \<lparr>bound_to = None, timeout = None\<rparr>)]
      \<and> (\<exists>evs. trace w' = EvSocket 4 # evs @ [EvClose 4])"
  using exchange_releases_socket
          [of 48899 "quiet\<lparr>sendto_error := Some OSError\<rparr>" "''10.0.0.1''" "[1, 2]" 10 idle]
  by (simp add: fresh_fd_idle quiet_def) (simp add: idle_def)

end
